theory Spec2Isabelle
  imports Complex_Main
begin

section \<open>Live trading engine: data model\<close>

text \<open>
  A shallow embedding of \<^verbatim>\<open>src/live_trading/engine.py\<close> (class \<^verbatim>\<open>LiveTradeEngine\<close>).
  The engine object is a record that is passed in and returned updated. Every call
  the engine makes to an external collaborator (strategy, trader, market-data feed,
  order manager) is appended to \<open>trace\<close>, every logger call to \<open>logs\<close>, both in
  program order. A Python exception is a value of \<open>exn\<close>. The calls to the trader, to
  the feed and to the logger are taken to return; \<^verbatim>\<open>get_portfolio_status\<close>, which only
  logs, is left out.
\<close>

subsection \<open>Python values\<close>

text \<open>
  The values a market-data payload, a price or a signal may hold. \<open>PyNum\<close> stands for
  Python's \<^verbatim>\<open>int\<close> and \<^verbatim>\<open>float\<close> alike and carries the numeric value (NaN and the
  infinities are left out). Dictionaries have string keys. \<open>PyObj\<close> is an object of any
  other type, with no length, no indexing and no numeric conversion, equal neither to 0
  nor to the empty list.
\<close>

datatype pyval =
    PyNone
  | PyBool bool
  | PyNum real
  | PyStr string
  | PyList "pyval list"
  | PyTuple "pyval list"
  | PyDict "(string \<times> pyval) list"
  | PyObj string

text \<open>
  \<open>NonException\<close> stands for the exceptions that derive from \<^verbatim>\<open>BaseException\<close> only
  (\<^verbatim>\<open>KeyboardInterrupt\<close>, \<^verbatim>\<open>SystemExit\<close>); \<^verbatim>\<open>except Exception\<close> does not catch them.
\<close>

datatype exn =
    TypeError
  | ValueError
  | KeyError
  | IndexError
  | AttributeError
  | OverflowError
  | OSError
  | OtherException string
  | NonException string

fun is_Exception :: "exn \<Rightarrow> bool" where
  "is_Exception (NonException _) = False"
| "is_Exception _ = True"

datatype outcome = Done | Raised exn

datatype datetime = Datetime real

text \<open>
  What the Python runtime computes and the model does not: the product and the
  quotient of two numbers as Python rounds them, \<^verbatim>\<open>datetime.fromtimestamp\<close> (which
  raises outside the platform's range), the clock \<^verbatim>\<open>time.time()\<close> as read during one
  callback, and the conversions of \<^verbatim>\<open>float()\<close>: the parsing of a string, and the float of
  a number. The float of a number depends on its value alone: a value that a float holds
  is returned as it is, any other value is that of an \<^verbatim>\<open>int\<close>, which is rounded to the
  nearest float or, beyond the largest float, raises \<^verbatim>\<open>OverflowError\<close> (\<open>None\<close> here).
  They are parameters of every function that uses them.
\<close>

record runtime =
  fmul :: "real \<Rightarrow> real \<Rightarrow> real"
  fdiv :: "real \<Rightarrow> real \<Rightarrow> real"
  fromtimestamp :: "real \<Rightarrow> exn + datetime"
  time_time :: real
  float_of_str :: "string \<Rightarrow> real option"
  float_of_num :: "real \<Rightarrow> real option"

text \<open>The numeric value of an operand of \<^verbatim>\<open>*\<close>, \<^verbatim>\<open>/\<close> or \<^verbatim>\<open>>\<close>; \<^verbatim>\<open>bool\<close> is an \<^verbatim>\<open>int\<close>.\<close>

fun as_num :: "pyval \<Rightarrow> real option" where
  "as_num (PyNum x) = Some x"
| "as_num (PyBool b) = Some (if b then 1 else 0)"
| "as_num _ = None"

text \<open>Truth value, as \<^verbatim>\<open>not x\<close> tests it.\<close>

fun py_truthy :: "pyval \<Rightarrow> bool" where
  "py_truthy PyNone = False"
| "py_truthy (PyBool b) = b"
| "py_truthy (PyNum x) = (x \<noteq> 0)"
| "py_truthy (PyStr s) = (s \<noteq> [])"
| "py_truthy (PyList xs) = (xs \<noteq> [])"
| "py_truthy (PyTuple xs) = (xs \<noteq> [])"
| "py_truthy (PyDict kvs) = (kvs \<noteq> [])"
| "py_truthy (PyObj _) = True"

text \<open>\<^verbatim>\<open>x == 0\<close>: true of the number zero and of \<^verbatim>\<open>False\<close>.\<close>

fun py_eq_zero :: "pyval \<Rightarrow> bool" where
  "py_eq_zero (PyNum x) = (x = 0)"
| "py_eq_zero (PyBool b) = (\<not> b)"
| "py_eq_zero _ = False"

text \<open>\<^verbatim>\<open>len(x)\<close>: a \<^verbatim>\<open>TypeError\<close> on a value that has no length.\<close>

fun py_len :: "pyval \<Rightarrow> exn + nat" where
  "py_len (PyList xs) = Inr (length xs)"
| "py_len (PyTuple xs) = Inr (length xs)"
| "py_len (PyStr s) = Inr (length s)"
| "py_len (PyDict kvs) = Inr (length kvs)"
| "py_len _ = Inl TypeError"

text \<open>
  \<^verbatim>\<open>x[i]\<close> for a literal index \<open>i \<ge> 0\<close>: a dictionary with string keys has no key
  \<open>i\<close>, a string gives the one-character string.
\<close>

fun py_index :: "pyval \<Rightarrow> nat \<Rightarrow> exn + pyval" where
  "py_index (PyList xs) i = (if i < length xs then Inr (xs ! i) else Inl IndexError)"
| "py_index (PyTuple xs) i = (if i < length xs then Inr (xs ! i) else Inl IndexError)"
| "py_index (PyStr s) i = (if i < length s then Inr (PyStr [s ! i]) else Inl IndexError)"
| "py_index (PyDict kvs) i = Inl KeyError"
| "py_index _ i = Inl TypeError"

text \<open>
  \<^verbatim>\<open>float(x)\<close>: \<^verbatim>\<open>OverflowError\<close> on an \<^verbatim>\<open>int\<close> too large for a float, \<^verbatim>\<open>ValueError\<close> on a
  string that is no number, \<^verbatim>\<open>TypeError\<close> on a value of any other type.
\<close>

fun py_float :: "runtime \<Rightarrow> pyval \<Rightarrow> exn + real" where
  "py_float rt (PyNum x) = (case float_of_num rt x of None \<Rightarrow> Inl OverflowError | Some y \<Rightarrow> Inr y)"
| "py_float rt (PyBool b) = Inr (if b then 1 else 0)"
| "py_float rt (PyStr s) = (case float_of_str rt s of None \<Rightarrow> Inl ValueError | Some x \<Rightarrow> Inr x)"
| "py_float rt _ = Inl TypeError"

text \<open>\<^verbatim>\<open>d.get(k)\<close> and \<^verbatim>\<open>d.get(k, default)\<close> on the entries of a dictionary.\<close>

definition dict_get :: "(string \<times> pyval) list \<Rightarrow> string \<Rightarrow> pyval \<Rightarrow> pyval" where
  "dict_get kvs k dflt = (case map_of kvs k of None \<Rightarrow> dflt | Some v \<Rightarrow> v)"

subsection \<open>Bars, gateway snapshots, calls and log lines\<close>

record bar =
  bar_datetime :: datetime
  bar_open :: pyval
  bar_high :: pyval
  bar_low :: pyval
  bar_close :: pyval
  bar_volume :: pyval

text \<open>The attributes of a gateway position and of the gateway asset that the engine reads.\<close>

record position =
  stock_code :: string
  volume :: int

record asset =
  cash :: real

text \<open>
  The gateway as the engine sees it: the result code its \<^verbatim>\<open>connect()\<close> gives, and the
  positions and the asset it reports when asked.
\<close>

record gateway =
  gw_connect_result :: int
  gw_positions :: "position list"
  gw_asset :: asset

datatype event =
    StrategyInit
  | StrategyBar bar
  | StrategyStop
  | TraderCreate string int
  | TraderStart
  | TraderConnect
  | TraderSubscribe string
  | TraderStop
  | SubscribeQuote string string
  | GetPositions
  | GetAsset
  | OrderBuy string pyval int string
  | OrderSell string pyval int string

fun is_order :: "event \<Rightarrow> bool" where
  "is_order (OrderBuy _ _ _ _) = True"
| "is_order (OrderSell _ _ _ _) = True"
| "is_order _ = False"

datatype log_level = DEBUG | INFO | WARNING | ERROR

datatype log_msg =
    InitializingStrategy
  | Connecting string
  | ConnectedOk
  | ConnectionFailed int
  | StartingEngine
  | Subscribing string string
  | StoppingEngine
  | SkippingEmpty string pyval
  | InvalidBarLength string nat
  | BarLine string bar
  | UnknownFormat string pyval
  | StrategyExecutionError string exn
  | TracebackLine exn
  | RawDataReceived pyval
  | ReceivedSignal string pyval
  | InsufficientCash string real real
  | NoPositionToSell string

text \<open>
  The fields of \<^verbatim>\<open>LiveTradeEngine\<close>. \<open>xt_trader\<close> holds the session id of the trader
  object once one is created, \<open>order_manager\<close> the account the order manager is bound
  to; both start as \<^verbatim>\<open>None\<close>. \<open>strategy\<close> is the private state of the strategy object.
\<close>

record 'st engine =
  strategy :: 'st
  account_id :: string
  mini_qmt_path :: string
  symbols :: "string list"
  period :: string
  xt_trader :: "int option"
  order_manager :: "string option"
  running :: bool
  gateway :: gateway
  trace :: "event list"
  logs :: "(log_level \<times> log_msg) list"

definition logger :: "log_level \<Rightarrow> log_msg \<Rightarrow> 'st engine \<Rightarrow> 'st engine" where
  "logger lvl m s = s\<lparr>logs := logs s @ [(lvl, m)]\<rparr>"

definition call :: "event \<Rightarrow> 'st engine \<Rightarrow> 'st engine" where
  "call ev s = s\<lparr>trace := trace s @ [ev]\<rparr>"

text \<open>The calls and the log lines that a run from \<open>s\<close> to \<open>s'\<close> added.\<close>

definition new_events :: "'st engine \<Rightarrow> 'st engine \<Rightarrow> event list" where
  "new_events s s' = drop (length (trace s)) (trace s')"

definition new_logs :: "'st engine \<Rightarrow> 'st engine \<Rightarrow> (log_level \<times> log_msg) list" where
  "new_logs s s' = drop (length (logs s)) (logs s')"

section \<open>Order manager\<close>

text \<open>
  Modelled from the spec: the class \<^verbatim>\<open>OrderManager\<close> (\<^verbatim>\<open>order_manager.py\<close>), which the
  engine imports and which is not among the sources. Section 4.4 of the specification:
  \<^verbatim>\<open>getPositions\<close> and \<^verbatim>\<open>getAsset\<close> are synchronous reads, each a fresh round trip with
  no cache; \<^verbatim>\<open>buy\<close> and \<^verbatim>\<open>sell\<close> submit an order that the engine does not track, and a
  failed submission is logged by the order manager, not raised.
\<close>

definition get_positions :: "'st engine \<Rightarrow> position list \<times> 'st engine" where
  "get_positions s = (gw_positions (gateway s), call GetPositions s)"

definition get_asset :: "'st engine \<Rightarrow> asset \<times> 'st engine" where
  "get_asset s = (gw_asset (gateway s), call GetAsset s)"

definition buy :: "string \<Rightarrow> pyval \<Rightarrow> int \<Rightarrow> string \<Rightarrow> 'st engine \<Rightarrow> 'st engine" where
  "buy symbol price qty tag s = call (OrderBuy symbol price qty tag) s"

definition sell :: "string \<Rightarrow> pyval \<Rightarrow> int \<Rightarrow> string \<Rightarrow> 'st engine \<Rightarrow> 'st engine" where
  "sell symbol price qty tag s = call (OrderSell symbol price qty tag) s"

section \<open>Signal handling\<close>

text \<open>
  \<^verbatim>\<open>{p.stock_code: p.volume for p in positions}\<close>: a later position of the same symbol
  replaces an earlier one.
\<close>

definition position_map :: "position list \<Rightarrow> (string \<rightharpoonup> int)" where
  "position_map positions = fold (\<lambda>p m. m(stock_code p \<mapsto> volume p)) positions Map.empty"

text \<open>\<^verbatim>\<open>position_map.get(symbol, 0)\<close> on the positions read.\<close>

definition current_pos :: "position list \<Rightarrow> string \<Rightarrow> int" where
  "current_pos positions symbol =
     (case position_map positions symbol of None \<Rightarrow> 0 | Some v \<Rightarrow> v)"

text \<open>
  \<^verbatim>\<open>_handle_signal(symbol, signal, price)\<close>. With no order manager the first read raises
  \<^verbatim>\<open>AttributeError\<close>. A price that is no number makes the buy branch raise
  \<^verbatim>\<open>TypeError\<close>, at \<^verbatim>\<open>price * 100\<close> or, for a string or a sequence, at the comparison
  of the cash with the repeated sequence.
\<close>

definition handle_signal ::
  "runtime \<Rightarrow> 'st engine \<Rightarrow> string \<Rightarrow> pyval \<Rightarrow> pyval \<Rightarrow> outcome \<times> 'st engine" where
  "handle_signal rt s symbol signal price =
     (if signal = PyStr ''hold'' then (Done, s)
      else
        let s1 = logger INFO (ReceivedSignal symbol signal) s in
        (case order_manager s1 of
           None \<Rightarrow> (Raised AttributeError, s1)
         | Some om \<Rightarrow>
             let (positions, s2) = get_positions s1;
                 cur = current_pos positions symbol;
                 (asset, s3) = get_asset s2;
                 available_cash = cash asset
             in
               if signal = PyStr ''buy'' then
                 (case as_num price of
                    None \<Rightarrow> (Raised TypeError, s3)
                  | Some p \<Rightarrow>
                      let cost = fmul rt p 100 in
                      if available_cash > cost
                      then (Done, buy symbol price 100 ''LiveStrategy'' s3)
                      else (Done, logger WARNING (InsufficientCash symbol available_cash cost) s3))
               else if signal = PyStr ''sell'' then
                 (if cur > 0
                  then (Done, sell symbol price cur ''LiveStrategy'' s3)
                  else (Done, logger WARNING (NoPositionToSell symbol) s3))
               else (Done, s3)))"

section \<open>Market data callback\<close>

text \<open>Sequencing of computations that may raise.\<close>

definition exn_bind :: "exn + 'a \<Rightarrow> ('a \<Rightarrow> exn + 'b) \<Rightarrow> exn + 'b" where
  "exn_bind r f = (case r of Inl e \<Rightarrow> Inl e | Inr x \<Rightarrow> f x)"

text \<open>
  The value of the key \<^verbatim>\<open>'datetime'\<close> of a list-format bar:
  \<^verbatim>\<open>fromtimestamp(timestamp / 1000) if timestamp > 1e10 else fromtimestamp(timestamp)\<close>.
  A timestamp that is no number raises \<^verbatim>\<open>TypeError\<close> at the comparison.
\<close>

definition list_datetime :: "runtime \<Rightarrow> pyval \<Rightarrow> exn + datetime" where
  "list_datetime rt timestamp =
     (case as_num timestamp of
        None \<Rightarrow> Inl TypeError
      | Some t \<Rightarrow>
          if t > 10000000000 then fromtimestamp rt (fdiv rt t 1000)
          else fromtimestamp rt t)"

text \<open>\<^verbatim>\<open>float(latest_bar[i])\<close>.\<close>

definition float_field :: "runtime \<Rightarrow> pyval \<Rightarrow> nat \<Rightarrow> exn + real" where
  "float_field rt latest_bar i = exn_bind (py_index latest_bar i) (py_float rt)"

text \<open>
  The bar built from the latest tuple of a list-format payload; the entries of the
  dictionary display are evaluated in the order written.
\<close>

definition bar_of_list :: "runtime \<Rightarrow> pyval \<Rightarrow> exn + bar" where
  "bar_of_list rt latest_bar =
     exn_bind (py_index latest_bar 0) (\<lambda>timestamp.
     exn_bind (list_datetime rt timestamp) (\<lambda>d.
     exn_bind (float_field rt latest_bar 1) (\<lambda>opn.
     exn_bind (float_field rt latest_bar 2) (\<lambda>high.
     exn_bind (float_field rt latest_bar 3) (\<lambda>low.
     exn_bind (float_field rt latest_bar 4) (\<lambda>cls.
     exn_bind (float_field rt latest_bar 5) (\<lambda>vol.
       Inr \<lparr>bar_datetime = d, bar_open = PyNum opn, bar_high = PyNum high,
            bar_low = PyNum low, bar_close = PyNum cls, bar_volume = PyNum vol\<rparr>)))))))"

text \<open>
  The value of the key \<^verbatim>\<open>'datetime'\<close> of a tick:
  \<^verbatim>\<open>fromtimestamp(tick_data.get('time', time.time() * 1000) / 1000)\<close>.
\<close>

definition tick_datetime :: "runtime \<Rightarrow> (string \<times> pyval) list \<Rightarrow> exn + datetime" where
  "tick_datetime rt kvs =
     (case as_num (dict_get kvs ''time'' (PyNum (fmul rt (time_time rt) 1000))) of
        None \<Rightarrow> Inl TypeError
      | Some t \<Rightarrow> fromtimestamp rt (fdiv rt t 1000))"

text \<open>
  The part of the body of the \<^verbatim>\<open>try\<close> block of \<^verbatim>\<open>_on_market_data\<close> that comes before the
  strategy is called: the payload of one symbol is skipped (\<^verbatim>\<open>continue\<close>), raises, or
  gives a bar and the current price.
\<close>

datatype normalized = Skip | NormRaised exn | NormBar bar pyval

definition normalize_payload ::
  "runtime \<Rightarrow> 'st engine \<Rightarrow> string \<Rightarrow> pyval \<Rightarrow> normalized \<times> 'st engine" where
  "normalize_payload rt s symbol tick_data =
     (if tick_data = PyNone \<or> py_eq_zero tick_data \<or> tick_data = PyList []
      then (Skip, logger DEBUG (SkippingEmpty symbol tick_data) s)
      else
        (case tick_data of
           PyList bars \<Rightarrow>
             if length bars = 0 then (Skip, s)
             else
               let latest_bar = last bars in
               (case py_len latest_bar of
                  Inl e \<Rightarrow> (NormRaised e, s)
                | Inr n \<Rightarrow>
                    if n < 6 then (Skip, logger WARNING (InvalidBarLength symbol n) s)
                    else
                      (case bar_of_list rt latest_bar of
                         Inl e \<Rightarrow> (NormRaised e, s)
                       | Inr b \<Rightarrow> (NormBar b (bar_close b), logger INFO (BarLine symbol b) s)))
         | PyDict kvs \<Rightarrow>
             let current_price = dict_get kvs ''lastPrice'' PyNone in
             if \<not> py_truthy current_price then (Skip, s)
             else
               (case tick_datetime rt kvs of
                  Inl e \<Rightarrow> (NormRaised e, s)
                | Inr d \<Rightarrow>
                    (NormBar \<lparr>bar_datetime = d,
                              bar_open = dict_get kvs ''open'' PyNone,
                              bar_high = dict_get kvs ''high'' PyNone,
                              bar_low = dict_get kvs ''low'' PyNone,
                              bar_close = current_price,
                              bar_volume = dict_get kvs ''volume'' PyNone\<rparr>
                       current_price, s))
         | _ \<Rightarrow> (Skip, logger WARNING (UnknownFormat symbol tick_data) s)))"

text \<open>
  The body of the \<^verbatim>\<open>try\<close> block for one symbol. The strategy is a parameter:
  \<open>on_bar\<close> takes the private state of the strategy and the bar, and gives the signal
  or the exception it raises, and the new private state.
\<close>

definition process_update ::
  "runtime \<Rightarrow> ('st \<Rightarrow> bar \<Rightarrow> (exn + pyval) \<times> 'st) \<Rightarrow> 'st engine \<Rightarrow> string \<Rightarrow> pyval
     \<Rightarrow> outcome \<times> 'st engine" where
  "process_update rt on_bar s symbol tick_data =
     (case normalize_payload rt s symbol tick_data of
        (Skip, s1) \<Rightarrow> (Done, s1)
      | (NormRaised e, s1) \<Rightarrow> (Raised e, s1)
      | (NormBar b current_price, s1) \<Rightarrow>
          let s2 = call (StrategyBar b) s1;
              (r, st') = on_bar (strategy s2) b;
              s3 = s2\<lparr>strategy := st'\<rparr>
          in (case r of
                Inl e \<Rightarrow> (Raised e, s3)
              | Inr signal \<Rightarrow> handle_signal rt s3 symbol signal current_price))"

text \<open>The three lines the \<^verbatim>\<open>except Exception\<close> handler logs.\<close>

definition log_exception :: "string \<Rightarrow> exn \<Rightarrow> pyval \<Rightarrow> 'st engine \<Rightarrow> 'st engine" where
  "log_exception symbol e tick_data s =
     logger ERROR (RawDataReceived tick_data)
       (logger ERROR (TracebackLine e)
         (logger ERROR (StrategyExecutionError symbol e) s))"

text \<open>
  \<^verbatim>\<open>_on_market_data(data)\<close>, over the items of \<open>data\<close> in order. The result holds the
  exception that leaves the callback, if one does: the handler catches what derives
  from \<^verbatim>\<open>Exception\<close> and nothing else.
\<close>

fun on_market_data ::
  "runtime \<Rightarrow> ('st \<Rightarrow> bar \<Rightarrow> (exn + pyval) \<times> 'st) \<Rightarrow> 'st engine \<Rightarrow> (string \<times> pyval) list
     \<Rightarrow> exn option \<times> 'st engine" where
  "on_market_data rt on_bar s [] = (None, s)"
| "on_market_data rt on_bar s ((symbol, tick_data) # rest) =
     (if symbol \<notin> set (symbols s) then on_market_data rt on_bar s rest
      else
        (case process_update rt on_bar s symbol tick_data of
           (Done, s1) \<Rightarrow> on_market_data rt on_bar s1 rest
         | (Raised e, s1) \<Rightarrow>
             if is_Exception e
             then on_market_data rt on_bar (log_exception symbol e tick_data s1) rest
             else (Some e, s1)))"

section \<open>Session lifecycle\<close>

text \<open>
  Modelled from the spec: the strategy class (\<^verbatim>\<open>BaseStrategy\<close>, not among the sources).
  Section 4.2 of the specification gives it the capabilities initialise, \<^verbatim>\<open>on_bar\<close> and
  stop; the engine uses no result of \<^verbatim>\<open>on_init\<close> and \<^verbatim>\<open>on_stop\<close>, so each is the call
  alone.
\<close>

definition on_init :: "'st engine \<Rightarrow> 'st engine" where
  "on_init s = call StrategyInit s"

definition on_stop :: "'st engine \<Rightarrow> 'st engine" where
  "on_stop s = call StrategyStop s"

text \<open>\<^verbatim>\<open>__init__\<close>.\<close>

definition init ::
  "'st \<Rightarrow> string \<Rightarrow> string \<Rightarrow> string list \<Rightarrow> string \<Rightarrow> gateway \<Rightarrow> 'st engine" where
  "init strat acct path syms per gw =
     on_init (logger INFO InitializingStrategy
       \<lparr>strategy = strat, account_id = acct, mini_qmt_path = path, symbols = syms,
        period = per, xt_trader = None, order_manager = None, running = False,
        gateway = gw, trace = [], logs = []\<rparr>)"

text \<open>\<^verbatim>\<open>int(x)\<close> of a float: truncation towards zero.\<close>

definition py_int :: "real \<Rightarrow> int" where
  "py_int x = (if 0 \<le> x then \<lfloor>x\<rfloor> else \<lceil>x\<rceil>)"

text \<open>
  \<^verbatim>\<open>connect()\<close>. The trader object is created and stored in \<open>xt_trader\<close> before the
  gateway is asked to connect.
\<close>

definition connect :: "runtime \<Rightarrow> 'st engine \<Rightarrow> bool \<times> 'st engine" where
  "connect rt s =
     (let s1 = logger INFO (Connecting (account_id s)) s;
          session_id = py_int (time_time rt);
          s2 = (call (TraderCreate (mini_qmt_path s1) session_id) s1)\<lparr>xt_trader := Some session_id\<rparr>;
          s3 = call TraderStart s2;
          s4 = call TraderConnect s3;
          connect_result = gw_connect_result (gateway s4)
      in
        if connect_result = 0 then
          let s5 = logger INFO ConnectedOk s4;
              s6 = call (TraderSubscribe (account_id s5)) s5;
              s7 = s6\<lparr>order_manager := Some (account_id s6)\<rparr>
          in (True, s7)
        else (False, logger ERROR (ConnectionFailed connect_result) s4))"

text \<open>
  \<^verbatim>\<open>start()\<close> up to its keep-alive loop: it returns early when it calls \<^verbatim>\<open>connect()\<close> and
  that fails, otherwise it sets the running flag, subscribes every symbol and enters
  \<^verbatim>\<open>while self.running: time.sleep(1)\<close>, which only another thread or an interrupt ends.
\<close>

datatype 'a started = Returned 'a | EntersMainLoop 'a

definition subscribe_all :: "'st engine \<Rightarrow> 'st engine" where
  "subscribe_all s =
     fold (\<lambda>symbol st.
             call (SubscribeQuote symbol (period st))
               (logger INFO (Subscribing symbol (period st)) st))
          (symbols s) s"

definition start :: "runtime \<Rightarrow> 'st engine \<Rightarrow> 'st engine started" where
  "start rt s =
     (let (connected, s1) = (if xt_trader s = None then connect rt s else (True, s)) in
        if \<not> connected then Returned s1
        else
          let s2 = s1\<lparr>running := True\<rparr>;
              s3 = logger INFO StartingEngine s2
          in EntersMainLoop (subscribe_all s3))"

text \<open>\<^verbatim>\<open>stop()\<close>.\<close>

definition stop :: "'st engine \<Rightarrow> 'st engine" where
  "stop s =
     (let s1 = s\<lparr>running := False\<rparr>;
          s2 = logger INFO StoppingEngine s1;
          s3 = on_stop s2
      in if xt_trader s3 \<noteq> None then call TraderStop s3 else s3)"

section \<open>Payload classes and sample instances\<close>

text \<open>A bar tuple (a list or a tuple) with fewer than six fields.\<close>

fun short_bar :: "pyval \<Rightarrow> bool" where
  "short_bar (PyList xs) = (length xs < 6)"
| "short_bar (PyTuple xs) = (length xs < 6)"
| "short_bar _ = False"

text \<open>
  The malformed payloads: \<^verbatim>\<open>None\<close>, a number (zero among them), the empty list, a list
  whose latest bar is short, and every value that is neither a list nor a dictionary.
\<close>

fun malformed_payload :: "pyval \<Rightarrow> bool" where
  "malformed_payload (PyList bars) = (bars = [] \<or> short_bar (last bars))"
| "malformed_payload (PyDict kvs) = False"
| "malformed_payload _ = True"

text \<open>
  A runtime with exact arithmetic, a clock at 1700000000 seconds,
  \<^verbatim>\<open>fromtimestamp\<close> defined everywhere and every number held by a float.
\<close>

definition exact_runtime :: runtime where
  "exact_runtime =
     \<lparr>fmul = (*), fdiv = (/), fromtimestamp = (\<lambda>t. Inr (Datetime t)),
      time_time = 1700000000, float_of_str = (\<lambda>s. None), float_of_num = Some\<rparr>"

text \<open>An engine for one symbol after a successful \<^verbatim>\<open>connect()\<close>, with the given cash and positions.\<close>

definition connected_engine :: "real \<Rightarrow> position list \<Rightarrow> unit engine" where
  "connected_engine c ps =
     snd (connect exact_runtime
       (init () ''40688525'' ''userdata_mini'' [''510050.SH''] ''5m''
          \<lparr>gw_connect_result = 0, gw_positions = ps, gw_asset = \<lparr>cash = c\<rparr>\<rparr>))"

text \<open>A connected engine for two symbols; the strategy state counts the bars seen.\<close>

definition two_symbol_engine :: "nat engine" where
  "two_symbol_engine =
     snd (connect exact_runtime
       (init 0 ''40688525'' ''userdata_mini'' [''510050.SH'', ''510300.SH''] ''5m''
          \<lparr>gw_connect_result = 0, gw_positions = [], gw_asset = \<lparr>cash = 1000\<rparr>\<rparr>))"

text \<open>A strategy that raises on the first bar and signals a buy on every later one.\<close>

definition fails_first_then_buys :: "nat \<Rightarrow> bar \<Rightarrow> (exn + pyval) \<times> nat" where
  "fails_first_then_buys n b =
     (if n = 0 then (Inl (OtherException ''rsi''), Suc n) else (Inr (PyStr ''buy''), Suc n))"

definition sample_bars :: "real \<Rightarrow> pyval" where
  "sample_bars c =
     PyList [PyList [PyNum 1700000000, PyNum 3.01, PyNum 3.05, PyNum 3.00, PyNum c, PyNum 12000]]"

definition sample_malformed :: "(string \<times> pyval) list" where
  "sample_malformed =
     [(''510050.SH'', PyNone), (''510050.SH'', PyNum 0), (''510050.SH'', PyList []),
      (''510050.SH'', PyList [PyTuple [PyNum 1700000000000, PyNum 3.01, PyNum 3.05]]),
      (''510050.SH'', PyStr ''tick'')]"

definition sample_tick :: "(string \<times> pyval) list" where
  "sample_tick =
     [(''time'', PyNum 1700000000), (''lastPrice'', PyNum 3.03), (''open'', PyNum 3.01),
      (''high'', PyNum 3.05), (''low'', PyNum 3.00), (''volume'', PyNum 12000)]"

text \<open>Three positions as the gateway lists them, the second for the symbol traded.\<close>

definition sample_positions :: "position list" where
  "sample_positions =
     [\<lparr>stock_code = ''510300.SH'', volume = 100\<rparr>,
      \<lparr>stock_code = ''510050.SH'', volume = 250\<rparr>,
      \<lparr>stock_code = ''159915.SZ'', volume = 70\<rparr>]"

text \<open>A freshly constructed engine whose gateway refuses the connection with code \<open>-1\<close>.\<close>

definition refused_engine :: "unit engine" where
  "refused_engine =
     init () ''40688525'' ''userdata_mini'' [''510050.SH''] ''5m''
       \<lparr>gw_connect_result = - 1, gw_positions = [], gw_asset = \<lparr>cash = 1000\<rparr>\<rparr>"

section \<open>Properties of the signal handler\<close>

lemma connected_engine_simps:
  "order_manager (connected_engine c ps) = Some ''40688525''"
  "cash (gw_asset (gateway (connected_engine c ps))) = c"
  "gw_positions (gateway (connected_engine c ps)) = ps"
  "symbols (connected_engine c ps) = [''510050.SH'']"
  by (simp_all add: connected_engine_def connect_def init_def on_init_def logger_def call_def Let_def)

subsection \<open>The position looked up\<close>

lemma position_map_append:
  "position_map (ps @ [p]) = (position_map ps)(stock_code p \<mapsto> volume p)"
  by (simp add: position_map_def)

lemma position_map_dom: "dom (position_map ps) = stock_code ` set ps"
proof (induction ps rule: rev_induct)
  case Nil
  show ?case by (simp add: position_map_def)
next
  case (snoc p ps)
  have "dom (position_map (ps @ [p])) = insert (stock_code p) (dom (position_map ps))"
    unfolding position_map_append by (simp del: fun_upd_apply)
  with snoc show ?case by simp
qed

text \<open>A symbol with no position entry has the volume 0.\<close>

lemma current_pos_no_entry:
  "symbol \<notin> stock_code ` set ps \<Longrightarrow> current_pos ps symbol = 0"
  using position_map_dom [of ps] by (auto simp: current_pos_def split: option.splits)

lemma position_map_last_entry:
  "stock_code p = symbol \<Longrightarrow> symbol \<notin> stock_code ` set qs \<Longrightarrow>
   position_map (ps @ p # qs) symbol = Some (volume p)"
proof (induction qs rule: rev_induct)
  case Nil
  then show ?case by (simp add: position_map_append)
next
  case (snoc q qs)
  then have "position_map ((ps @ p # qs) @ [q]) symbol = Some (volume p)"
    unfolding position_map_append by auto
  then show ?case by simp
qed

text \<open>Otherwise the volume is that of the last entry for the symbol.\<close>

lemma current_pos_last_entry:
  "stock_code p = symbol \<Longrightarrow> symbol \<notin> stock_code ` set qs \<Longrightarrow>
   current_pos (ps @ p # qs) symbol = volume p"
  by (simp add: current_pos_def position_map_last_entry)

text \<open>
  In terms of the list alone: the volume looked up is that of the last entry of the list
  whose stock code is the symbol, and 0 when the list has no such entry.
\<close>

lemma position_map_find:
  "position_map ps symbol = map_option volume (find (\<lambda>p. stock_code p = symbol) (rev ps))"
proof (induction ps rule: rev_induct)
  case Nil
  show ?case by (simp add: position_map_def)
next
  case (snoc p ps)
  then show ?case by (auto simp: position_map_append)
qed

lemma current_pos_find:
  "current_pos ps symbol =
     (case find (\<lambda>p. stock_code p = symbol) (rev ps) of None \<Rightarrow> 0 | Some p \<Rightarrow> volume p)"
  by (simp add: current_pos_def position_map_find split: option.splits)

subsection \<open>Buy\<close>

text \<open>
  Claim C1. On a buy signal at a numeric price, with the order manager in place, the
  handler reads the positions and the asset and then submits one buy order of 100 units
  at that price if and only if the cash just read is strictly greater than the product
  of the price and 100; otherwise it submits nothing and logs the insufficient-cash
  warning. Equal cash and cost give no order.
\<close>

theorem buy_order_iff_cash_exceeds_cost:
  assumes "order_manager s = Some om"
  shows "(case handle_signal rt s symbol (PyStr ''buy'') (PyNum price) of (out, s') \<Rightarrow>
      out = Done
    \<and> new_events s s' = [GetPositions, GetAsset] @
        (if cash (gw_asset (gateway s)) > fmul rt price 100
         then [OrderBuy symbol (PyNum price) 100 ''LiveStrategy''] else [])
    \<and> new_logs s s' = [(INFO, ReceivedSignal symbol (PyStr ''buy''))] @
        (if cash (gw_asset (gateway s)) > fmul rt price 100 then []
         else [(WARNING, InsufficientCash symbol (cash (gw_asset (gateway s)))
                           (fmul rt price 100))]))"
  using assms
  by (simp add: handle_signal_def Let_def get_positions_def get_asset_def buy_def
      logger_def call_def new_events_def new_logs_def)

text \<open>Price 3.00 and cash 301.00: one order of 100 units at 3.00.\<close>

theorem buy_order_with_cash_301:
  "(case handle_signal exact_runtime (connected_engine 301 []) ''510050.SH''
           (PyStr ''buy'') (PyNum 3) of (out, s') \<Rightarrow>
      out = Done
    \<and> new_events (connected_engine 301 []) s' =
        [GetPositions, GetAsset, OrderBuy ''510050.SH'' (PyNum 3) 100 ''LiveStrategy'']
    \<and> new_logs (connected_engine 301 []) s' =
        [(INFO, ReceivedSignal ''510050.SH'' (PyStr ''buy''))])"
  using buy_order_iff_cash_exceeds_cost [OF connected_engine_simps(1),
      where rt = exact_runtime and symbol = "''510050.SH''" and price = 3
        and c1 = 301 and ps1 = "[]"]
  by (simp add: connected_engine_simps exact_runtime_def)

text \<open>Price 3.00 and cash 300.00, equal to the cost: no order, and the warning.\<close>

lemma buy_with_cash_equal_to_cost:
  "(case handle_signal exact_runtime (connected_engine 300 []) ''510050.SH''
           (PyStr ''buy'') (PyNum 3) of (out, s') \<Rightarrow>
      out = Done
    \<and> new_events (connected_engine 300 []) s' = [GetPositions, GetAsset]
    \<and> new_logs (connected_engine 300 []) s' =
        [(INFO, ReceivedSignal ''510050.SH'' (PyStr ''buy'')),
         (WARNING, InsufficientCash ''510050.SH'' 300 300)])"
  by (simp add: handle_signal_def Let_def get_positions_def get_asset_def buy_def
      logger_def call_def new_events_def new_logs_def connected_engine_simps exact_runtime_def)

subsection \<open>Sell\<close>

text \<open>
  Claim C2. On a sell signal, with the order manager in place, the handler reads the
  positions and the asset. If the list just read has an entry for the symbol (the last
  such entry, should the gateway list a symbol twice) and its volume is strictly
  positive, the handler submits one sell order for that whole volume, whatever the other
  entries are; if the volume is not positive, or the list has no entry for the symbol, it
  submits nothing and logs the no-position warning.
\<close>

theorem sell_liquidates_whole_position:
  assumes "order_manager s = Some om"
  shows "(case handle_signal rt s symbol (PyStr ''sell'') price of (out, s') \<Rightarrow>
      out = Done
    \<and> (case find (\<lambda>p. stock_code p = symbol) (rev (gw_positions (gateway s))) of
         Some p \<Rightarrow>
           if volume p > 0
           then new_events s s' =
                  [GetPositions, GetAsset, OrderSell symbol price (volume p) ''LiveStrategy'']
              \<and> new_logs s s' = [(INFO, ReceivedSignal symbol (PyStr ''sell''))]
           else new_events s s' = [GetPositions, GetAsset]
              \<and> new_logs s s' = [(INFO, ReceivedSignal symbol (PyStr ''sell'')),
                                 (WARNING, NoPositionToSell symbol)]
       | None \<Rightarrow>
           new_events s s' = [GetPositions, GetAsset]
         \<and> new_logs s s' = [(INFO, ReceivedSignal symbol (PyStr ''sell'')),
                            (WARNING, NoPositionToSell symbol)]))"
  using assms
  by (simp add: handle_signal_def Let_def get_positions_def get_asset_def sell_def
      logger_def call_def new_events_def new_logs_def current_pos_find split: option.splits)

text \<open>
  Positions of 100, 250 and 70 units in three symbols, the second one sold: one order to
  sell 250.
\<close>

theorem sell_position_of_250:
  "(case handle_signal exact_runtime (connected_engine 0 sample_positions)
           ''510050.SH'' (PyStr ''sell'') (PyNum 3) of (out, s') \<Rightarrow>
      out = Done
    \<and> new_events (connected_engine 0 sample_positions) s' =
        [GetPositions, GetAsset, OrderSell ''510050.SH'' (PyNum 3) 250 ''LiveStrategy'']
    \<and> new_logs (connected_engine 0 sample_positions) s' =
        [(INFO, ReceivedSignal ''510050.SH'' (PyStr ''sell''))])"
  using sell_liquidates_whole_position [OF connected_engine_simps(1),
      where rt = exact_runtime and symbol = "''510050.SH''" and price = "PyNum 3"
        and c1 = 0 and ps1 = sample_positions]
  by (simp add: connected_engine_simps sample_positions_def split: prod.splits)

text \<open>The same positions, another symbol sold: one order to sell its 70 units.\<close>

lemma sell_other_position_of_70:
  "(case handle_signal exact_runtime (connected_engine 0 sample_positions)
           ''159915.SZ'' (PyStr ''sell'') (PyNum 2) of (out, s') \<Rightarrow>
      out = Done
    \<and> new_events (connected_engine 0 sample_positions) s' =
        [GetPositions, GetAsset, OrderSell ''159915.SZ'' (PyNum 2) 70 ''LiveStrategy''])"
  by (simp add: handle_signal_def Let_def get_positions_def get_asset_def sell_def
      logger_def call_def new_events_def new_logs_def connected_engine_simps
      current_pos_def position_map_def sample_positions_def)

text \<open>An entry of volume 0: no order, and the warning.\<close>

lemma sell_position_of_volume_0:
  "(case handle_signal exact_runtime
           (connected_engine 0 [\<lparr>stock_code = ''510050.SH'', volume = 0\<rparr>])
           ''510050.SH'' (PyStr ''sell'') (PyNum 3) of (out, s') \<Rightarrow>
      out = Done
    \<and> new_events (connected_engine 0 [\<lparr>stock_code = ''510050.SH'', volume = 0\<rparr>]) s' =
        [GetPositions, GetAsset]
    \<and> new_logs (connected_engine 0 [\<lparr>stock_code = ''510050.SH'', volume = 0\<rparr>]) s' =
        [(INFO, ReceivedSignal ''510050.SH'' (PyStr ''sell'')),
         (WARNING, NoPositionToSell ''510050.SH'')])"
  by (simp add: handle_signal_def Let_def get_positions_def get_asset_def sell_def
      logger_def call_def new_events_def new_logs_def connected_engine_simps
      current_pos_def position_map_def)

text \<open>No position entry: no order, and the warning.\<close>

lemma sell_without_position:
  "(case handle_signal exact_runtime (connected_engine 0 []) ''510050.SH''
           (PyStr ''sell'') (PyNum 3) of (out, s') \<Rightarrow>
      out = Done
    \<and> new_events (connected_engine 0 []) s' = [GetPositions, GetAsset]
    \<and> new_logs (connected_engine 0 []) s' =
        [(INFO, ReceivedSignal ''510050.SH'' (PyStr ''sell'')),
         (WARNING, NoPositionToSell ''510050.SH'')])"
  by (simp add: handle_signal_def Let_def get_positions_def get_asset_def sell_def
      logger_def call_def new_events_def new_logs_def connected_engine_simps
      current_pos_def position_map_def)

subsection \<open>Hold and other signals\<close>

text \<open>
  Claim C9. On a hold signal the handler returns at once: the engine is returned as it
  was, so no gateway call is made and no field changes.
\<close>

theorem hold_returns_unchanged:
  "handle_signal rt s symbol (PyStr ''hold'') price = (Done, s)"
  by (simp add: handle_signal_def)

theorem hold_returns_unchanged_example:
  "handle_signal exact_runtime (connected_engine 301 []) ''510050.SH'' (PyStr ''hold'') (PyNum 3) =
     (Done, connected_engine 301 [])"
  using hold_returns_unchanged [where rt = exact_runtime and s = "connected_engine 301 []"
      and symbol = "''510050.SH''" and price = "PyNum 3"]
  by simp

text \<open>
  Claim C10. On every signal other than hold, with the order manager in place, the first
  two calls of the handler are the reads of the positions and of the asset, and whatever
  follows is an order; for a signal that is neither buy nor sell nothing follows.
\<close>

theorem reads_precede_decision:
  assumes "signal \<noteq> PyStr ''hold''" and "order_manager s = Some om"
  shows "(case handle_signal rt s symbol signal price of (out, s') \<Rightarrow>
      (\<exists>rest. new_events s s' = GetPositions # GetAsset # rest \<and> list_all is_order rest)
    \<and> (signal \<noteq> PyStr ''buy'' \<and> signal \<noteq> PyStr ''sell'' \<longrightarrow>
         out = Done \<and> new_events s s' = [GetPositions, GetAsset]))"
  using assms
  by (simp add: handle_signal_def Let_def get_positions_def get_asset_def sell_def buy_def
      logger_def call_def new_events_def new_logs_def split: option.splits)

text \<open>The unrecognised signal \<^verbatim>\<open>"short"\<close>: the two reads and nothing else.\<close>

theorem reads_precede_decision_example:
  "PyStr ''short'' \<noteq> PyStr ''hold'' \<and>
   (case handle_signal exact_runtime (connected_engine 301 []) ''510050.SH''
           (PyStr ''short'') (PyNum 3) of (out, s') \<Rightarrow>
      out = Done \<and> new_events (connected_engine 301 []) s' = [GetPositions, GetAsset])"
  using reads_precede_decision [OF _ connected_engine_simps(1),
      where signal = "PyStr ''short''" and rt = exact_runtime and symbol = "''510050.SH''"
        and price = "PyNum 3" and c1 = 301 and ps1 = "[]"]
  by (simp split: prod.splits)

section \<open>Properties of the market data callback\<close>

subsection \<open>Malformed payloads\<close>

lemma short_bar_len: "short_bar b \<Longrightarrow> \<exists>n. py_len b = Inr n \<and> n < 6"
  by (cases b) simp_all

lemma normalize_payload_malformed:
  assumes "malformed_payload tick_data"
  shows "case normalize_payload rt s symbol tick_data of (n, s') \<Rightarrow>
           n = Skip \<and> s'\<lparr>logs := logs s\<rparr> = s"
proof (cases tick_data)
  case (PyList bars)
  show ?thesis
  proof (cases "bars = []")
    case True
    with PyList show ?thesis by (simp add: normalize_payload_def logger_def)
  next
    case False
    with assms PyList obtain n where "py_len (last bars) = Inr n" "n < 6"
      using short_bar_len by auto
    with False PyList show ?thesis by (simp add: normalize_payload_def logger_def Let_def)
  qed
next
  case (PyDict kvs)
  with assms show ?thesis by simp
qed (simp_all add: normalize_payload_def logger_def)

lemma process_update_malformed:
  assumes "malformed_payload tick_data"
  shows "case process_update rt on_bar s symbol tick_data of (out, s') \<Rightarrow>
           out = Done \<and> s'\<lparr>logs := logs s\<rparr> = s"
  using normalize_payload_malformed [OF assms, where rt = rt and s = s and symbol = symbol]
  by (auto simp: process_update_def split: prod.splits)

lemma only_logs_trans:
  fixes s :: "'st engine"
  assumes "s1\<lparr>logs := logs s\<rparr> = s" and "s2\<lparr>logs := logs s1\<rparr> = s1"
  shows "s2\<lparr>logs := logs s\<rparr> = s"
proof -
  have "s2\<lparr>logs := logs s\<rparr> = (s2\<lparr>logs := logs s1\<rparr>)\<lparr>logs := logs s\<rparr>" by simp
  also have "\<dots> = s1\<lparr>logs := logs s\<rparr>" by (simp only: assms(2))
  finally show ?thesis by (simp only: assms(1))
qed

text \<open>
  Claim C4. When every payload handed to the callback is malformed (\<^verbatim>\<open>None\<close>, a number
  such as 0, the empty list, a list whose latest bar tuple has fewer than six fields, or a
  value that is neither a list nor a dictionary), the callback returns without an
  exception and leaves the engine as it was apart from the log: no bar reaches the
  strategy, whatever the strategy is, and no gateway call is made.
\<close>

theorem malformed_payloads_skipped:
  assumes "\<forall>(symbol, tick_data) \<in> set data. malformed_payload tick_data"
  shows "case on_market_data rt on_bar s data of (raised, s') \<Rightarrow>
           raised = None \<and> s'\<lparr>logs := logs s\<rparr> = s"
  using assms
proof (induction data arbitrary: s)
  case Nil
  show ?case by simp
next
  case (Cons item data)
  obtain symbol tick_data where item: "item = (symbol, tick_data)" by (cases item)
  from Cons.prems item have m: "malformed_payload tick_data" by simp
  from Cons.prems have rest: "\<forall>(symbol, tick_data) \<in> set data. malformed_payload tick_data"
    by simp
  show ?case
  proof (cases "symbol \<in> set (symbols s)")
    case False
    with item Cons.IH [OF rest, of s] show ?thesis by simp
  next
    case True
    obtain out s1 where p: "process_update rt on_bar s symbol tick_data = (out, s1)"
      by (cases "process_update rt on_bar s symbol tick_data")
    with process_update_malformed [OF m, where rt = rt and on_bar = on_bar and s = s
        and symbol = symbol]
    have out: "out = Done" and s1: "s1\<lparr>logs := logs s\<rparr> = s" by simp_all
    obtain raised s2 where r: "on_market_data rt on_bar s1 data = (raised, s2)"
      by (cases "on_market_data rt on_bar s1 data")
    with Cons.IH [OF rest, of s1]
    have raised: "raised = None" and s2: "s2\<lparr>logs := logs s1\<rparr> = s1" by simp_all
    from True item p out r raised only_logs_trans [OF s1 s2]
    show ?thesis by simp
  qed
qed

text \<open>Five malformed payloads in one callback, with a strategy that would buy on any bar.\<close>

theorem malformed_payloads_skipped_example:
  "(case on_market_data exact_runtime (\<lambda>st b. (Inr (PyStr ''buy''), st))
           (connected_engine 1000 []) sample_malformed of (raised, s') \<Rightarrow>
      raised = None \<and> s'\<lparr>logs := logs (connected_engine 1000 [])\<rparr> = connected_engine 1000 [])"
proof -
  have m: "\<forall>(symbol, tick_data) \<in> set sample_malformed. malformed_payload tick_data"
    by (simp add: sample_malformed_def)
  show ?thesis
    using malformed_payloads_skipped [OF m, where rt = exact_runtime
        and on_bar = "\<lambda>st b. (Inr (PyStr ''buy''), st)" and s = "connected_engine 1000 []"]
    by simp
qed

subsection \<open>Timestamps\<close>

text \<open>
  Claim C5, as amended. For a list-shaped payload whose latest bar (a list or a tuple)
  holds a numeric timestamp and at least five more fields that \<^verbatim>\<open>float()\<close> converts, a
  timestamp strictly greater than \<open>10\<^sup>1\<^sup>0\<close> is taken as milliseconds (the datetime is
  that of the timestamp divided by 1000) and a timestamp up to and including \<open>10\<^sup>1\<^sup>0\<close>
  is taken as seconds; the floats of the five fields after it become the bar's open,
  high, low, close and volume.
\<close>

theorem list_timestamp_unit:
  assumes "latest_bar = PyList (PyNum t # xo # xh # xl # xc # xv # extra)
         \<or> latest_bar = PyTuple (PyNum t # xo # xh # xl # xc # xv # extra)"
    and "fromtimestamp rt (if t > 10000000000 then fdiv rt t 1000 else t) = Inr d"
    and "py_float rt xo = Inr opn" and "py_float rt xh = Inr high"
    and "py_float rt xl = Inr low" and "py_float rt xc = Inr cls"
    and "py_float rt xv = Inr vol"
  shows "fst (normalize_payload rt s symbol (PyList (bars @ [latest_bar]))) =
           NormBar \<lparr>bar_datetime = d, bar_open = PyNum opn, bar_high = PyNum high,
                    bar_low = PyNum low, bar_close = PyNum cls, bar_volume = PyNum vol\<rparr>
             (PyNum cls)"
  using assms
  by (auto simp: normalize_payload_def Let_def bar_of_list_def list_datetime_def
      float_field_def exn_bind_def split: if_splits)

text \<open>
  A field that is an \<^verbatim>\<open>int\<close> too large for a float makes \<^verbatim>\<open>float()\<close> raise: no bar is
  built, whatever the timestamp.
\<close>

lemma list_field_overflow_raises:
  assumes "float_of_num rt x = None"
    and "fromtimestamp rt (if t > 10000000000 then fdiv rt t 1000 else t) = Inr d"
  shows "fst (normalize_payload rt s symbol
                (PyList (bars @ [PyList (PyNum t # PyNum x # xh # xl # xc # xv # extra)]))) =
           NormRaised OverflowError"
  using assms
  by (auto simp: normalize_payload_def Let_def bar_of_list_def list_datetime_def
      float_field_def exn_bind_def split: if_splits)

text \<open>The timestamp 1700000000000 gives the datetime of 1700000000 seconds.\<close>

theorem list_timestamp_unit_example:
  "fst (normalize_payload exact_runtime (connected_engine 0 []) ''510050.SH''
         (PyList ([] @ [PyList [PyNum 1700000000000, PyNum 3.01, PyNum 3.05, PyNum 3.00,
                                PyNum 3.03, PyNum 12000]]))) =
     NormBar \<lparr>bar_datetime = Datetime 1700000000, bar_open = PyNum 3.01, bar_high = PyNum 3.05,
              bar_low = PyNum 3.00, bar_close = PyNum 3.03, bar_volume = PyNum 12000\<rparr>
       (PyNum 3.03)"
  using list_timestamp_unit [where rt = exact_runtime and t = 1700000000000
      and d = "Datetime 1700000000"
      and latest_bar = "PyList [PyNum 1700000000000, PyNum 3.01, PyNum 3.05, PyNum 3.00,
                                PyNum 3.03, PyNum 12000]"
      and xo = "PyNum 3.01" and xh = "PyNum 3.05" and xl = "PyNum 3.00" and xc = "PyNum 3.03"
      and xv = "PyNum 12000"
      and opn = "3.01" and high = "3.05" and low = "3.00" and cls = "3.03" and vol = 12000
      and extra = "[]" and s = "connected_engine 0 []" and symbol = "''510050.SH''"
      and bars = "[]"]
  by (simp add: exact_runtime_def)

text \<open>
  The timestamp \<open>10\<^sup>1\<^sup>0\<close> itself is taken as seconds: the bar's datetime is that of
  \<open>10\<^sup>1\<^sup>0\<close> seconds, not that of \<open>10\<^sup>7\<close> seconds, which the division by 1000 gives.
\<close>

theorem list_timestamp_boundary_is_seconds:
  "fst (normalize_payload exact_runtime (connected_engine 0 []) ''510050.SH''
         (PyList [PyList [PyNum 10000000000, PyNum 3.01, PyNum 3.05, PyNum 3.00,
                          PyNum 3.03, PyNum 12000]])) =
     NormBar \<lparr>bar_datetime = Datetime 10000000000, bar_open = PyNum 3.01, bar_high = PyNum 3.05,
              bar_low = PyNum 3.00, bar_close = PyNum 3.03, bar_volume = PyNum 12000\<rparr>
       (PyNum 3.03)
   \<and> fromtimestamp exact_runtime (fdiv exact_runtime 10000000000 1000) = Inr (Datetime 10000000)
   \<and> Datetime 10000000000 \<noteq> Datetime 10000000"
  by (simp add: normalize_payload_def Let_def bar_of_list_def list_datetime_def float_field_def
      exn_bind_def exact_runtime_def)

text \<open>
  Claim C6, as amended. For a map-shaped payload with a truthy \<^verbatim>\<open>lastPrice\<close>, the numeric
  \<^verbatim>\<open>time\<close> (or, when the key is absent, the clock in milliseconds) is always divided by
  1000, whatever its magnitude: a tick's time is taken as milliseconds, and the magnitude
  rule of the list-shaped payloads is not applied.
\<close>

theorem tick_time_always_millis:
  assumes "py_truthy (dict_get kvs ''lastPrice'' PyNone)"
    and "as_num (dict_get kvs ''time'' (PyNum (fmul rt (time_time rt) 1000))) = Some t"
    and "fromtimestamp rt (fdiv rt t 1000) = Inr d"
  shows "normalize_payload rt s symbol (PyDict kvs) =
           (NormBar \<lparr>bar_datetime = d,
                     bar_open = dict_get kvs ''open'' PyNone,
                     bar_high = dict_get kvs ''high'' PyNone,
                     bar_low = dict_get kvs ''low'' PyNone,
                     bar_close = dict_get kvs ''lastPrice'' PyNone,
                     bar_volume = dict_get kvs ''volume'' PyNone\<rparr>
              (dict_get kvs ''lastPrice'' PyNone), s)"
  using assms
  by (simp add: normalize_payload_def Let_def tick_datetime_def)

text \<open>A tick whose time is 1700000000 gives the datetime of 1700000 seconds.\<close>

theorem tick_time_always_millis_example:
  "normalize_payload exact_runtime (connected_engine 0 []) ''510050.SH'' (PyDict sample_tick) =
     (NormBar \<lparr>bar_datetime = Datetime 1700000, bar_open = PyNum 3.01, bar_high = PyNum 3.05,
               bar_low = PyNum 3.00, bar_close = PyNum 3.03, bar_volume = PyNum 12000\<rparr>
        (PyNum 3.03),
      connected_engine 0 [])"
  using tick_time_always_millis [where kvs = sample_tick and rt = exact_runtime
      and t = 1700000000 and d = "Datetime 1700000" and s = "connected_engine 0 []"
      and symbol = "''510050.SH''"]
  by (simp add: sample_tick_def dict_get_def exact_runtime_def)

text \<open>
  A tick whose \<^verbatim>\<open>time\<close> is 1700000000, below \<open>10\<^sup>1\<^sup>0\<close>, is not taken as seconds: the bar's
  datetime is that of 1700000 seconds, not that of 1700000000 seconds.
\<close>

theorem tick_time_below_bound_divided:
  "fst (normalize_payload exact_runtime (connected_engine 0 []) ''510050.SH'' (PyDict sample_tick)) =
     NormBar \<lparr>bar_datetime = Datetime 1700000, bar_open = PyNum 3.01, bar_high = PyNum 3.05,
              bar_low = PyNum 3.00, bar_close = PyNum 3.03, bar_volume = PyNum 12000\<rparr>
       (PyNum 3.03)
   \<and> map_of sample_tick ''time'' = Some (PyNum 1700000000)
   \<and> (1700000000::real) < 10000000000
   \<and> fromtimestamp exact_runtime 1700000000 = Inr (Datetime 1700000000)
   \<and> Datetime 1700000 \<noteq> Datetime 1700000000"
  by (simp add: normalize_payload_def Let_def tick_datetime_def sample_tick_def dict_get_def
      exact_runtime_def)

subsection \<open>Isolation of the updates of one payload\<close>

lemma on_market_data_append:
  "on_market_data rt on_bar s pre = (None, s0) \<Longrightarrow>
   on_market_data rt on_bar s (pre @ rest) = on_market_data rt on_bar s0 rest"
proof (induction pre arbitrary: s)
  case Nil
  then show ?case by simp
next
  case (Cons item pre)
  obtain symbol tick_data where item: "item = (symbol, tick_data)" by (cases item)
  show ?case
  proof (cases "symbol \<in> set (symbols s)")
    case False
    with Cons item show ?thesis by simp
  next
    case True
    obtain out s1 where p: "process_update rt on_bar s symbol tick_data = (out, s1)"
      by (cases "process_update rt on_bar s symbol tick_data")
    show ?thesis
    proof (cases out)
      case Done
      with Cons True item p show ?thesis by simp
    next
      case (Raised e)
      with Cons True item p show ?thesis by (cases "is_Exception e") simp_all
    qed
  qed
qed

text \<open>
  Claim C7. Let the updates \<open>pre\<close> of a payload have been processed, and let the next
  update, for a subscribed symbol, raise an exception \<open>e\<close> that derives from
  \<^verbatim>\<open>Exception\<close>, anywhere in normalisation, strategy or signal handling. Then the
  exception is caught, three error lines are logged and nothing else changes, and the
  updates \<open>rest\<close> that follow are processed exactly as the callback processes a payload
  of its own, from the state the failed update left.
\<close>

theorem per_update_isolation:
  assumes "on_market_data rt on_bar s pre = (None, s0)"
    and "symbol \<in> set (symbols s0)"
    and "process_update rt on_bar s0 symbol tick_data = (Raised e, s1)"
    and "is_Exception e"
  shows "on_market_data rt on_bar s (pre @ (symbol, tick_data) # rest) =
           on_market_data rt on_bar (log_exception symbol e tick_data s1) rest
       \<and> new_logs s1 (log_exception symbol e tick_data s1) =
           [(ERROR, StrategyExecutionError symbol e), (ERROR, TracebackLine e),
            (ERROR, RawDataReceived tick_data)]
       \<and> new_events s1 (log_exception symbol e tick_data s1) = []"
  using assms on_market_data_append [OF assms(1), where rest = "(symbol, tick_data) # rest"]
  by (simp add: new_logs_def new_events_def log_exception_def logger_def)

lemma two_symbol_engine_eq:
  "two_symbol_engine =
     \<lparr>strategy = 0, account_id = ''40688525'', mini_qmt_path = ''userdata_mini'',
      symbols = [''510050.SH'', ''510300.SH''], period = ''5m'',
      xt_trader = Some 1700000000, order_manager = Some ''40688525'', running = False,
      gateway = \<lparr>gw_connect_result = 0, gw_positions = [], gw_asset = \<lparr>cash = 1000\<rparr>\<rparr>,
      trace = [StrategyInit, TraderCreate ''userdata_mini'' 1700000000, TraderStart,
               TraderConnect, TraderSubscribe ''40688525''],
      logs = [(INFO, InitializingStrategy), (INFO, Connecting ''40688525''), (INFO, ConnectedOk)]\<rparr>"
  by (simp add: two_symbol_engine_def connect_def init_def on_init_def logger_def call_def
      Let_def exact_runtime_def py_int_def)

text \<open>
  The strategy raises on the bar of the first symbol; the bar of the second symbol still
  reaches it, and its buy signal becomes the one order of the callback.
\<close>

theorem per_update_isolation_example:
  "fst (on_market_data exact_runtime fails_first_then_buys two_symbol_engine
         ([] @ (''510050.SH'', sample_bars 3.03) # [(''510300.SH'', sample_bars 4.03)])) = None
   \<and> filter is_order (new_events two_symbol_engine
        (snd (on_market_data exact_runtime fails_first_then_buys two_symbol_engine
           ([] @ (''510050.SH'', sample_bars 3.03) # [(''510300.SH'', sample_bars 4.03)])))) =
      [OrderBuy ''510300.SH'' (PyNum 4.03) 100 ''LiveStrategy'']"
proof -
  let ?p = "process_update exact_runtime fails_first_then_buys two_symbol_engine
              ''510050.SH'' (sample_bars 3.03)"
  have h1: "on_market_data exact_runtime fails_first_then_buys two_symbol_engine [] =
              (None, two_symbol_engine)" by simp
  have h2: "''510050.SH'' \<in> set (symbols two_symbol_engine)"
    by (simp add: two_symbol_engine_eq)
  have "fst ?p = Raised (OtherException ''rsi'')"
    by (simp add: two_symbol_engine_eq process_update_def normalize_payload_def sample_bars_def
        bar_of_list_def list_datetime_def float_field_def exn_bind_def exact_runtime_def
        fails_first_then_buys_def call_def logger_def Let_def)
  then have h3: "?p = (Raised (OtherException ''rsi''), snd ?p)"
    by (metis prod.collapse)
  have h4: "is_Exception (OtherException ''rsi'')" by simp
  show ?thesis
    using per_update_isolation [OF h1 h2 h3 h4, where rest = "[(''510300.SH'', sample_bars 4.03)]"]
    by (simp add: two_symbol_engine_eq process_update_def normalize_payload_def sample_bars_def
        bar_of_list_def list_datetime_def float_field_def exn_bind_def exact_runtime_def
        fails_first_then_buys_def call_def logger_def Let_def handle_signal_def
        get_positions_def get_asset_def buy_def log_exception_def new_events_def)
qed

subsection \<open>No exception leaves the callback\<close>

lemma exn_bind_Inl:
  "exn_bind r f = Inl e \<Longrightarrow> r = Inl e \<or> (\<exists>x. r = Inr x \<and> f x = Inl e)"
  by (cases r) (simp_all add: exn_bind_def)

lemma py_index_raises: "py_index v i = Inl e \<Longrightarrow> is_Exception e"
  by (cases v) (auto split: if_splits)

lemma py_float_raises: "py_float rt v = Inl e \<Longrightarrow> is_Exception e"
  by (cases v) (auto split: option.splits)

lemma py_len_raises: "py_len v = Inl e \<Longrightarrow> is_Exception e"
  by (cases v) auto

lemma float_field_raises: "float_field rt v i = Inl e \<Longrightarrow> is_Exception e"
  unfolding float_field_def
  by (auto dest!: exn_bind_Inl dest: py_index_raises py_float_raises)

lemma list_datetime_raises:
  assumes "\<forall>t e. fromtimestamp rt t = Inl e \<longrightarrow> is_Exception e"
    and "list_datetime rt v = Inl e"
  shows "is_Exception e"
  using assms by (auto simp: list_datetime_def split: option.splits if_splits)

lemma tick_datetime_raises:
  assumes "\<forall>t e. fromtimestamp rt t = Inl e \<longrightarrow> is_Exception e"
    and "tick_datetime rt kvs = Inl e"
  shows "is_Exception e"
  using assms by (auto simp: tick_datetime_def split: option.splits)

lemma bar_of_list_raises:
  assumes ft: "\<forall>t e. fromtimestamp rt t = Inl e \<longrightarrow> is_Exception e"
    and "bar_of_list rt v = Inl e"
  shows "is_Exception e"
  using assms(2) list_datetime_raises [OF ft] unfolding bar_of_list_def
  by (auto dest!: exn_bind_Inl dest: py_index_raises float_field_raises)

lemma normalize_payload_raises:
  assumes ft: "\<forall>t e. fromtimestamp rt t = Inl e \<longrightarrow> is_Exception e"
    and "normalize_payload rt s symbol tick_data = (NormRaised e, s1)"
  shows "is_Exception e"
  using assms(2) bar_of_list_raises [OF ft] tick_datetime_raises [OF ft]
  by (auto simp: normalize_payload_def Let_def split: if_splits pyval.splits sum.splits
      dest: py_len_raises)

lemma handle_signal_raises:
  "handle_signal rt s symbol signal price = (Raised e, s1) \<Longrightarrow> is_Exception e"
  by (auto simp: handle_signal_def Let_def get_positions_def get_asset_def
      split: if_splits option.splits)

lemma process_update_raises:
  assumes ft: "\<forall>t e. fromtimestamp rt t = Inl e \<longrightarrow> is_Exception e"
    and st: "\<forall>st b e st'. on_bar st b = (Inl e, st') \<longrightarrow> is_Exception e"
    and "process_update rt on_bar s symbol tick_data = (Raised e, s1)"
  shows "is_Exception e"
  using assms(3) st normalize_payload_raises [OF ft]
  by (auto simp: process_update_def Let_def split: prod.splits normalized.splits sum.splits
      dest: handle_signal_raises)

text \<open>
  When the strategy and \<^verbatim>\<open>fromtimestamp\<close> raise nothing but what derives from
  \<^verbatim>\<open>Exception\<close>, no exception leaves the callback, whatever the payload.
\<close>

lemma callback_never_raises:
  assumes ft: "\<forall>t e. fromtimestamp rt t = Inl e \<longrightarrow> is_Exception e"
    and st: "\<forall>st b e st'. on_bar st b = (Inl e, st') \<longrightarrow> is_Exception e"
  shows "fst (on_market_data rt on_bar s data) = None"
proof (induction data arbitrary: s)
  case Nil
  show ?case by simp
next
  case (Cons item data)
  obtain symbol tick_data where item: "item = (symbol, tick_data)" by (cases item)
  show ?case
  proof (cases "symbol \<in> set (symbols s)")
    case False
    with item Cons show ?thesis by simp
  next
    case True
    obtain out s1 where p: "process_update rt on_bar s symbol tick_data = (out, s1)"
      by (cases "process_update rt on_bar s symbol tick_data")
    show ?thesis
    proof (cases out)
      case Done
      with True item p Cons show ?thesis by simp
    next
      case (Raised e)
      with p process_update_raises [OF ft st] have "is_Exception e" by blast
      with Raised True item p Cons show ?thesis by simp
    qed
  qed
qed

section \<open>Properties of the session lifecycle\<close>

subsection \<open>Stop\<close>

text \<open>
  Claim C3, as amended. \<^verbatim>\<open>stop()\<close> has no guard and no branch that raises: each call
  clears the running flag and calls the strategy's \<^verbatim>\<open>on_stop\<close> once, so two calls in
  sequence call \<^verbatim>\<open>on_stop\<close> twice (and stop the trader twice, when there is one).
\<close>

theorem stop_twice_calls_on_stop_twice:
  "new_events s (stop (stop s)) =
     (if xt_trader s = None then [StrategyStop, StrategyStop]
      else [StrategyStop, TraderStop, StrategyStop, TraderStop])
   \<and> count_list (new_events s (stop (stop s))) StrategyStop = 2
   \<and> running (stop (stop s)) = False"
  by (simp add: stop_def on_stop_def call_def logger_def new_events_def Let_def)

theorem stop_twice_calls_on_stop_twice_example:
  "count_list (new_events (connected_engine 1000 []) (stop (stop (connected_engine 1000 []))))
     StrategyStop = 2
   \<and> running (stop (stop (connected_engine 1000 []))) = False"
  using stop_twice_calls_on_stop_twice [where s = "connected_engine 1000 []"]
  by simp

text \<open>On a connected engine two calls of \<^verbatim>\<open>stop()\<close> call \<^verbatim>\<open>on_stop\<close> twice, not once.\<close>

theorem second_stop_calls_on_stop_again:
  "new_events (connected_engine 1000 []) (stop (stop (connected_engine 1000 []))) =
     [StrategyStop, TraderStop, StrategyStop, TraderStop]
   \<and> count_list (new_events (connected_engine 1000 []) (stop (stop (connected_engine 1000 []))))
        StrategyStop \<noteq> 1"
  by (simp add: stop_def on_stop_def call_def logger_def new_events_def Let_def
      connected_engine_def connect_def init_def on_init_def)

subsection \<open>Connect and start\<close>

text \<open>\<^verbatim>\<open>connect()\<close> returns \<^verbatim>\<open>False\<close> exactly when the gateway's result code is not 0.\<close>

lemma connect_fails_iff:
  "fst (connect rt s) = (gw_connect_result (gateway s) = 0)"
  by (simp add: connect_def Let_def logger_def call_def)

text \<open>
  A call of \<^verbatim>\<open>start()\<close> on an engine with no trader object, whose gateway refuses the
  connection, returns with the running flag as it was, after one attempt to connect and
  with no subscription.
\<close>

lemma start_returns_on_failed_connect:
  assumes "xt_trader s = None" and "gw_connect_result (gateway s) \<noteq> 0"
  shows "\<exists>s'. start rt s = Returned s' \<and> running s' = running s
     \<and> new_events s s' =
         [TraderCreate (mini_qmt_path s) (py_int (time_time rt)), TraderStart, TraderConnect]"
  using assms
  by (simp add: start_def connect_def Let_def logger_def call_def new_events_def)

lemma subscribe_all_running: "running (subscribe_all s) = running s"
proof -
  have "running (fold (\<lambda>symbol st.
            call (SubscribeQuote symbol (period st))
              (logger INFO (Subscribing symbol (period st)) st)) syms s) = running s"
    for syms
    by (induction syms arbitrary: s) (simp_all add: call_def logger_def)
  then show ?thesis by (simp add: subscribe_all_def)
qed

text \<open>
  A failed \<^verbatim>\<open>connect()\<close> leaves the trader object in place, and \<^verbatim>\<open>start()\<close> connects only
  when there is none: whatever the result code, \<^verbatim>\<open>start()\<close> after \<^verbatim>\<open>connect()\<close> sets the
  running flag and subscribes.
\<close>

lemma start_after_connect_runs:
  "\<exists>s'. start rt (snd (connect rt s)) = EntersMainLoop s' \<and> running s'"
  by (simp add: start_def connect_def Let_def logger_def call_def subscribe_all_running)

text \<open>
  Claim C8. The claim has the engine never running after a failed connect. On a fresh
  engine whose gateway answers \<open>-1\<close>, \<^verbatim>\<open>connect()\<close> returns \<^verbatim>\<open>False\<close>, and a \<^verbatim>\<open>start()\<close>
  after it sets the running flag and subscribes the symbol, with no order manager. In
  the same way a first \<^verbatim>\<open>start()\<close> returns with the flag unset, and a second \<^verbatim>\<open>start()\<close>
  sets the flag and subscribes without a new attempt to connect.
\<close>

theorem start_after_failed_connect_runs:
  "fst (connect exact_runtime refused_engine) = False
   \<and> (case start exact_runtime (snd (connect exact_runtime refused_engine)) of
        Returned s' \<Rightarrow> False
      | EntersMainLoop s' \<Rightarrow>
          running s' \<and> order_manager s' = None
        \<and> new_events (snd (connect exact_runtime refused_engine)) s' =
            [SubscribeQuote ''510050.SH'' ''5m''])
   \<and> (case start exact_runtime refused_engine of
        EntersMainLoop s1 \<Rightarrow> False
      | Returned s1 \<Rightarrow>
          running s1 = False
        \<and> (case start exact_runtime s1 of
              Returned s2 \<Rightarrow> False
            | EntersMainLoop s2 \<Rightarrow>
                running s2 \<and> order_manager s2 = None
              \<and> new_events s1 s2 = [SubscribeQuote ''510050.SH'' ''5m'']))"
  by (simp add: refused_engine_def start_def connect_def init_def on_init_def subscribe_all_def
      Let_def logger_def call_def new_events_def exact_runtime_def)

end
